theory Spec2Isabelle
  imports Main
begin

section \<open>Data model\<close>

subsection \<open>Remote shapes read by the mapper (src/pages/index.tsx)\<close>

text \<open>
  A rich-text run of the remote API. The mapper reads nothing of a run but its
  \<open>plain_text\<close>.
\<close>

record rich_text_item =
  plain_text :: string

text \<open>
  A property value of a page is a union tagged by \<open>type\<close>. The mapper looks at the tags
  \<open>title\<close> and \<open>rich_text\<close> only; every other tag is kept as \<open>OtherProperty\<close> with
  its tag.
\<close>

datatype property_value =
    TitleProperty "rich_text_item list"
  | RichTextProperty "rich_text_item list"
  | OtherProperty string

fun property_type :: "property_value \<Rightarrow> string" where
  "property_type (TitleProperty rs) = ''title''"
| "property_type (RichTextProperty rs) = ''rich_text''"
| "property_type (OtherProperty t) = t"

text \<open>
  An entry of the query result is either a partial page object (no \<open>properties\<close> key)
  or a full page object, whose \<open>properties\<close> is a dictionary from property names to
  property values.
\<close>

datatype raw_page =
    PartialPage string
  | FullPage string string string "string \<rightharpoonup> property_value"

fun page_id :: "raw_page \<Rightarrow> string" where
  "page_id (PartialPage pid) = pid"
| "page_id (FullPage pid created edited props) = pid"

text \<open>
  A block is a union tagged by \<open>type\<close>; the five tags of the \<open>switch\<close> carry a rich-text
  array (and \<open>code\<close> a language), every other tag is kept as \<open>OtherBlock\<close> with its tag.
  A partial block object has no \<open>type\<close> key. \<open>has_children\<close> is the remote's flag for
  nested child blocks.
\<close>

datatype block_body =
    Paragraph "rich_text_item list"
  | Heading_2 "rich_text_item list"
  | Heading_3 "rich_text_item list"
  | Quote "rich_text_item list"
  | Code "rich_text_item list" string
  | OtherBlock string

datatype raw_block =
    PartialBlock string
  | FullBlock string bool block_body

fun body_type :: "block_body \<Rightarrow> string" where
  "body_type (Paragraph rs) = ''paragraph''"
| "body_type (Heading_2 rs) = ''heading_2''"
| "body_type (Heading_3 rs) = ''heading_3''"
| "body_type (Quote rs) = ''quote''"
| "body_type (Code rs lang) = ''code''"
| "body_type (OtherBlock t) = t"

text \<open>The \<open>type\<close> key of a block, \<open>None\<close> when the block has none.\<close>

fun block_type :: "raw_block \<Rightarrow> string option" where
  "block_type (PartialBlock bid) = None"
| "block_type (FullBlock bid has_children b) = Some (body_type b)"

text \<open>
  The rich-text array the mapper reads of a block: that of a block of one of the five
  tags of the \<open>switch\<close>, \<open>None\<close> for every other block.
\<close>

fun block_rich_text :: "raw_block \<Rightarrow> rich_text_item list option" where
  "block_rich_text (FullBlock bid has_children (Paragraph rs)) = Some rs"
| "block_rich_text (FullBlock bid has_children (Heading_2 rs)) = Some rs"
| "block_rich_text (FullBlock bid has_children (Heading_3 rs)) = Some rs"
| "block_rich_text (FullBlock bid has_children (Quote rs)) = Some rs"
| "block_rich_text (FullBlock bid has_children (Code rs lang)) = Some rs"
| "block_rich_text b = None"

definition recognized_types :: "string list" where
  "recognized_types = [''paragraph'', ''quote'', ''heading_2'', ''heading_3'', ''code'']"

subsection \<open>Mapped shapes: \<open>Content\<close> and \<open>Post\<close>\<close>

datatype text_type = T_paragraph | T_quote | T_heading_2 | T_heading_3

text \<open>
  \<open>Content\<close> has two variants: one with a \<open>type\<close> among four tags and a \<open>text\<close>, one
  of type \<open>code\<close> with a \<open>text\<close> and a \<open>language\<close>. \<open>null\<close> is \<open>None\<close>.
\<close>

datatype content =
    TextContent text_type "string option"
  | CodeContent "string option" "string option"

fun content_type :: "content \<Rightarrow> string" where
  "content_type (TextContent T_paragraph t) = ''paragraph''"
| "content_type (TextContent T_quote t) = ''quote''"
| "content_type (TextContent T_heading_2 t) = ''heading_2''"
| "content_type (TextContent T_heading_3 t) = ''heading_3''"
| "content_type (CodeContent t l) = ''code''"

fun content_text :: "content \<Rightarrow> string option" where
  "content_text (TextContent k t) = t"
| "content_text (CodeContent t l) = t"

record post =
  post_id :: string
  title :: "string option"
  slug :: "string option"
  createdTs :: "string option"
  lastEditedTs :: "string option"
  contents :: "content list"

text \<open>
  Errors are values: \<open>TypeError\<close> is what reading a key of \<open>undefined\<close> throws,
  \<open>RemoteError\<close> is a rejected remote call.
\<close>

datatype error = TypeError | RemoteError string

section \<open>The mapper of the listing route (src/pages/index.tsx, \<open>getStaticProps\<close>)\<close>

text \<open>\<open>runs[0]?.plain_text ?? null\<close>: the plain text of the first run, \<open>null\<close> on an empty array.\<close>

fun first_plain_text :: "rich_text_item list \<Rightarrow> string option" where
  "first_plain_text [] = None"
| "first_plain_text (r # rs) = Some (plain_text r)"

text \<open>
  Lines 88-91. \<open>page.properties['Name']\<close> is \<open>undefined\<close> when the dictionary has no
  such key, and reading \<open>.type\<close> of it throws.
\<close>

definition read_title :: "(string \<rightharpoonup> property_value) \<Rightarrow> error + string option" where
  "read_title props =
     (case props ''Name'' of
        None \<Rightarrow> Inl TypeError
      | Some (TitleProperty rs) \<Rightarrow> Inr (first_plain_text rs)
      | Some other \<Rightarrow> Inr None)"

text \<open>Lines 92-95, the same for \<open>page.properties['Slug']\<close> and the tag \<open>rich_text\<close>.\<close>

definition read_slug :: "(string \<rightharpoonup> property_value) \<Rightarrow> error + string option" where
  "read_slug props =
     (case props ''Slug'' of
        None \<Rightarrow> Inl TypeError
      | Some (RichTextProperty rs) \<Rightarrow> Inr (first_plain_text rs)
      | Some other \<Rightarrow> Inr None)"

text \<open>
  Lines 101-136, the body of \<open>blocks.results.forEach\<close> for one block: what it pushes on
  \<open>contents\<close>, \<open>None\<close> when it pushes nothing (no \<open>type\<close> key, or no \<open>case\<close> of the
  \<open>switch\<close> matches; the \<open>switch\<close> has no \<open>default\<close>).
\<close>

fun map_block :: "raw_block \<Rightarrow> content option" where
  "map_block (PartialBlock bid) = None"
| "map_block (FullBlock bid has_children (Paragraph rs)) =
     Some (TextContent T_paragraph (first_plain_text rs))"
| "map_block (FullBlock bid has_children (Heading_2 rs)) =
     Some (TextContent T_heading_2 (first_plain_text rs))"
| "map_block (FullBlock bid has_children (Heading_3 rs)) =
     Some (TextContent T_heading_3 (first_plain_text rs))"
| "map_block (FullBlock bid has_children (Quote rs)) =
     Some (TextContent T_quote (first_plain_text rs))"
| "map_block (FullBlock bid has_children (Code rs lang)) =
     Some (CodeContent (first_plain_text rs) (Some lang))"
| "map_block (FullBlock bid has_children (OtherBlock t)) = None"

text \<open>
  Lines 98-137: \<open>contents\<close> starts empty and \<open>forEach\<close> visits the blocks in order,
  each pushing at the end. The accumulator is the array built so far.
\<close>

fun for_each_block :: "raw_block list \<Rightarrow> content list \<Rightarrow> content list" where
  "for_each_block [] acc = acc"
| "for_each_block (b # bs) acc =
     (case map_block b of
        None \<Rightarrow> for_each_block bs acc
      | Some c \<Rightarrow> for_each_block bs (acc @ [c]))"

definition map_blocks :: "raw_block list \<Rightarrow> content list" where
  "map_blocks blocks = for_each_block blocks []"

text \<open>
  Line 97: \<open>blockResponses[index]\<close> is \<open>undefined\<close> past the end of the array, and
  reading \<open>.results\<close> of it throws.
\<close>

definition block_response :: "raw_block list list \<Rightarrow> nat \<Rightarrow> error + raw_block list" where
  "block_response blockResponses index =
     (if index < length blockResponses then Inr (blockResponses ! index) else Inl TypeError)"

text \<open>
  Lines 74-147, the body of \<open>database.results.forEach\<close> for one entry: the post it
  pushes on \<open>posts\<close>, or the error it throws.
\<close>

fun map_entry :: "raw_page \<Rightarrow> nat \<Rightarrow> raw_block list list \<Rightarrow> error + post" where
  "map_entry (PartialPage pid) index blockResponses =
     Inr \<lparr>post_id = pid, title = None, slug = None, createdTs = None,
          lastEditedTs = None, contents = []\<rparr>"
| "map_entry (FullPage pid created edited props) index blockResponses =
     (case read_title props of
        Inl e \<Rightarrow> Inl e
      | Inr t \<Rightarrow>
     (case read_slug props of
        Inl e \<Rightarrow> Inl e
      | Inr s \<Rightarrow>
     (case block_response blockResponses index of
        Inl e \<Rightarrow> Inl e
      | Inr blocks \<Rightarrow>
          Inr \<lparr>post_id = pid, title = t, slug = s, createdTs = Some created,
               lastEditedTs = Some edited, contents = map_blocks blocks\<rparr>)))"

text \<open>
  Lines 56 and 74-147: \<open>posts\<close> starts empty and \<open>forEach\<close> visits the entries in
  order with their index; an error thrown for one entry ends the whole call.
\<close>

fun for_each_page ::
  "raw_page list \<Rightarrow> nat \<Rightarrow> raw_block list list \<Rightarrow> post list \<Rightarrow> error + post list" where
  "for_each_page [] index blockResponses posts = Inr posts"
| "for_each_page (page # pages) index blockResponses posts =
     (case map_entry page index blockResponses of
        Inl e \<Rightarrow> Inl e
      | Inr p \<Rightarrow> for_each_page pages (Suc index) blockResponses (posts @ [p]))"

definition map_posts :: "raw_page list \<Rightarrow> raw_block list list \<Rightarrow> error + post list" where
  "map_posts results blockResponses = for_each_page results 0 blockResponses []"

text \<open>
  Lines 57-63: \<open>Promise.all\<close> over one \<open>blocks.children.list\<close> call per entry, in the
  order of the entries; it rejects when one call rejects (here with the error of the
  first such entry; which of several errors it is plays no role below). The remote call
  is the parameter \<open>list_children\<close>, from a page id to its first page of blocks.
\<close>

fun promise_all :: "(string \<Rightarrow> error + raw_block list) \<Rightarrow> string list \<Rightarrow> error + raw_block list list" where
  "promise_all list_children [] = Inr []"
| "promise_all list_children (i # ids) =
     (case list_children i of
        Inl e \<Rightarrow> Inl e
      | Inr blocks \<Rightarrow>
     (case promise_all list_children ids of
        Inl e \<Rightarrow> Inl e
      | Inr rest \<Rightarrow> Inr (blocks # rest)))"

text \<open>
  Lines 36-153. The answer of \<open>notion.databases.query\<close> is the parameter \<open>database\<close>:
  the entries it returned, or the error it rejected with. The value returned is the
  \<open>posts\<close> of \<open>props\<close>.
\<close>

definition getStaticProps ::
  "error + raw_page list \<Rightarrow> (string \<Rightarrow> error + raw_block list) \<Rightarrow> error + post list" where
  "getStaticProps database list_children =
     (case database of
        Inl e \<Rightarrow> Inl e
      | Inr results \<Rightarrow>
     (case promise_all list_children (map page_id results) of
        Inl e \<Rightarrow> Inl e
      | Inr blockResponses \<Rightarrow> map_posts results blockResponses))"

text \<open>
  The entries on which lines 89 and 93 read a property that is there: a partial entry
  (the mapper reads no property of it), or a full entry whose dictionary has both the
  key \<open>Name\<close> and the key \<open>Slug\<close>.
\<close>

fun carries_name_and_slug :: "raw_page \<Rightarrow> bool" where
  "carries_name_and_slug (PartialPage pid) = True"
| "carries_name_and_slug (FullPage pid created edited properties) =
     (properties ''Name'' \<noteq> None \<and> properties ''Slug'' \<noteq> None)"

section \<open>The detail route (src/unnamed/part_000)\<close>

record static_paths_params =
  param_slug :: string

record path_entry =
  params :: static_paths_params

record static_paths =
  paths :: "path_entry list"
  fallback :: string

text \<open>
  What the detail route's \<open>getStaticProps\<close> returns: \<open>props\<close> with or without a
  \<open>post\<close>, and a \<open>redirect\<close> with its \<open>destination\<close> or none.
\<close>

record static_props =
  props :: "post option"
  redirect :: "string option"

text \<open>Lines 20-25.\<close>

definition notFoundProps :: static_props where
  "notFoundProps = \<lparr>props = None, redirect = Some ''/404''\<rparr>"

text \<open>
  \<open>Array.prototype.shift\<close>: removes the first element and returns it, \<open>undefined\<close> on an
  empty array. The second component is the array left behind.
\<close>

fun shift :: "'a list \<Rightarrow> 'a option \<times> 'a list" where
  "shift [] = (None, [])"
| "shift (x # xs) = (Some x, xs)"

text \<open>
  Lines 16-44. The two functions imported from the listing module are parameters:
  \<open>getPosts\<close> with its optional slug and \<open>getPostContents\<close>, each returning its value
  or the error it rejects with. \<open>params\<close> is \<open>None\<close> when the context has none.
\<close>

definition getStaticProps_detail ::
  "(string option \<Rightarrow> error + post list) \<Rightarrow> (post \<Rightarrow> error + content list) \<Rightarrow>
   static_paths_params option \<Rightarrow> error + static_props" where
  "getStaticProps_detail getPosts getPostContents params_opt =
     (case params_opt of
        None \<Rightarrow> Inr notFoundProps
      | Some ps \<Rightarrow>
     (case getPosts (Some (param_slug ps)) of
        Inl e \<Rightarrow> Inl e
      | Inr posts \<Rightarrow>
     (case fst (shift posts) of
        None \<Rightarrow> Inr notFoundProps
      | Some p \<Rightarrow>
     (case getPostContents p of
        Inl e \<Rightarrow> Inl e
      | Inr cs \<Rightarrow> Inr \<lparr>props = Some (p\<lparr>contents := cs\<rparr>), redirect = None\<rparr>))))"

text \<open>
  Line 53, \<open>if (slug)\<close> on a \<open>string | null\<close>: \<open>null\<close> and the empty string are falsy,
  every other string is truthy.
\<close>

fun truthy :: "string option \<Rightarrow> bool" where
  "truthy None = False"
| "truthy (Some s) = (s \<noteq> [])"

text \<open>Lines 48-60: \<open>paths\<close> starts empty and \<open>forEach\<close> visits the posts in order.\<close>

fun for_each_post :: "post list \<Rightarrow> path_entry list \<Rightarrow> path_entry list" where
  "for_each_post [] acc = acc"
| "for_each_post (p # ps) acc =
     (if truthy (slug p)
      then for_each_post ps (acc @ [\<lparr>params = \<lparr>param_slug = the (slug p)\<rparr>\<rparr>])
      else for_each_post ps acc)"

text \<open>
  Lines 46-62. The parameter is the outcome of \<open>await getPosts()\<close>: the posts, or the
  error the call rejected with.
\<close>

definition getStaticPaths :: "error + post list \<Rightarrow> error + static_paths" where
  "getStaticPaths fetched =
     (case fetched of
        Inl e \<Rightarrow> Inl e
      | Inr posts \<Rightarrow> Inr \<lparr>paths = for_each_post posts [], fallback = ''blocking''\<rparr>)"

section \<open>The fetch by slug\<close>

text \<open>
  Modelled from the spec: \<open>getPosts\<close> and the remote's slug filter. The detail route
  imports \<open>getPosts\<close> from the listing module, and the listing module under src/ has no
  such export. Spec 4.1 and 6: the remote is queried for the published entries, newest
  first, optionally narrowed by an equality filter on the "Slug" field; spec 8: the
  entry matched by a slug is the one whose raw "Slug" rich-text first run equals it.
  \<open>published\<close> is the list of the published entries, newest first.
\<close>

fun raw_slug :: "raw_page \<Rightarrow> string option" where
  "raw_slug (PartialPage pid) = None"
| "raw_slug (FullPage pid created edited properties) =
     (case properties ''Slug'' of
        Some (RichTextProperty (r # rs)) \<Rightarrow> Some (plain_text r)
      | _ \<Rightarrow> None)"

text \<open>
  Modelled from the spec: the answer of the remote to the query of \<open>getPosts\<close>, with
  the optional slug-equality filter of spec 4.1 and 6 over the published entries.
\<close>

fun query_database :: "raw_page list \<Rightarrow> string option \<Rightarrow> raw_page list" where
  "query_database published None = published"
| "query_database published (Some s) = filter (\<lambda>page. raw_slug page = Some s) published"

text \<open>
  Modelled from the spec: \<open>getPosts\<close> (spec 4.1, \<open>listPosts\<close>) queries the remote, fetches
  the blocks of each returned entry and maps each entry; the fetch of the blocks and
  the mapping are those of the listing route.
\<close>

definition getPosts ::
  "raw_page list \<Rightarrow> (string \<Rightarrow> error + raw_block list) \<Rightarrow> string option \<Rightarrow> error + post list" where
  "getPosts published list_children slug_filter =
     getStaticProps (Inr (query_database published slug_filter)) list_children"

section \<open>Auxiliary facts\<close>

subsection \<open>The loop over the blocks\<close>

lemma for_each_block_acc: "for_each_block bs acc = acc @ for_each_block bs []"
proof (induction bs arbitrary: acc)
  case Nil
  show ?case by simp
next
  case (Cons b bs)
  show ?case
  proof (cases "map_block b")
    case None
    then show ?thesis using Cons.IH [of acc] by simp
  next
    case (Some c)
    then show ?thesis using Cons.IH [of "acc @ [c]"] Cons.IH [of "[c]"] by simp
  qed
qed

lemma map_blocks_Nil: "map_blocks [] = []"
  by (simp add: map_blocks_def)

lemma map_blocks_Cons:
  "map_blocks (b # bs) = (case map_block b of None \<Rightarrow> [] | Some c \<Rightarrow> [c]) @ map_blocks bs"
proof (cases "map_block b")
  case None
  then show ?thesis by (simp add: map_blocks_def)
next
  case (Some c)
  then show ?thesis using for_each_block_acc [of bs "[c]"] by (simp add: map_blocks_def)
qed

lemma map_blocks_append: "map_blocks (xs @ ys) = map_blocks xs @ map_blocks ys"
  by (induction xs) (simp_all add: map_blocks_Nil map_blocks_Cons)

lemma map_blocks_filter:
  "map_blocks bs = map (the \<circ> map_block) (filter (\<lambda>b. map_block b \<noteq> None) bs)"
  by (induction bs) (auto simp: map_blocks_Nil map_blocks_Cons)

lemma map_block_unrecognized:
  assumes "block_type b = None \<or> (\<exists>t. block_type b = Some t \<and> t \<notin> set recognized_types)"
  shows "map_block b = None"
proof (cases b)
  case (PartialBlock bid)
  then show ?thesis by simp
next
  case (FullBlock bid hc body)
  with assms have "body_type body \<notin> set recognized_types" by simp
  then show ?thesis using FullBlock
    by (cases body) (simp_all add: recognized_types_def)
qed

subsection \<open>One entry\<close>

lemma read_title_Some: "properties ''Name'' = Some v \<Longrightarrow>
  read_title properties = Inr (case v of TitleProperty rs \<Rightarrow> first_plain_text rs | _ \<Rightarrow> None)"
  by (cases v) (simp_all add: read_title_def)

lemma read_slug_Some: "properties ''Slug'' = Some v \<Longrightarrow>
  read_slug properties = Inr (case v of RichTextProperty rs \<Rightarrow> first_plain_text rs | _ \<Rightarrow> None)"
  by (cases v) (simp_all add: read_slug_def)

lemma map_entry_returns_iff:
  "(\<exists>p. map_entry (FullPage pid created edited properties) i resps = Inr p) \<longleftrightarrow>
   properties ''Name'' \<noteq> None \<and> properties ''Slug'' \<noteq> None \<and> i < length resps"
proof
  assume "\<exists>p. map_entry (FullPage pid created edited properties) i resps = Inr p"
  then show "properties ''Name'' \<noteq> None \<and> properties ''Slug'' \<noteq> None \<and> i < length resps"
    by (auto simp: read_title_def read_slug_def block_response_def
        split: sum.splits option.splits if_splits)
next
  assume a: "properties ''Name'' \<noteq> None \<and> properties ''Slug'' \<noteq> None \<and> i < length resps"
  then obtain v w where "properties ''Name'' = Some v" "properties ''Slug'' = Some w" by auto
  with a show "\<exists>p. map_entry (FullPage pid created edited properties) i resps = Inr p"
    by (simp add: read_title_Some read_slug_Some block_response_def)
qed

lemma map_entry_post_id: "map_entry page i resps = Inr p \<Longrightarrow> post_id p = page_id page"
  by (cases page) (auto split: sum.splits)

lemma map_entry_slug:
  assumes "raw_slug page = Some s" and "map_entry page i resps = Inr p"
  shows "slug p = Some s"
proof (cases page)
  case (PartialPage pid)
  with assms show ?thesis by simp
next
  case (FullPage pid created edited properties)
  with assms(1) obtain r rs where "properties ''Slug'' = Some (RichTextProperty (r # rs))"
    and "plain_text r = s"
    by (auto split: option.splits property_value.splits list.splits)
  with assms(2) FullPage show ?thesis
    by (auto simp: read_slug_def split: sum.splits)
qed

subsection \<open>The loop over the entries\<close>

lemma for_each_page_Inr:
  "for_each_page pages i resps acc = Inr posts \<Longrightarrow>
   \<exists>ps. posts = acc @ ps \<and> length ps = length pages \<and>
        (\<forall>k<length pages. map_entry (pages ! k) (i + k) resps = Inr (ps ! k))"
proof (induction pages arbitrary: i acc)
  case Nil
  then show ?case by simp
next
  case (Cons page pages)
  from Cons.prems obtain p where p: "map_entry page i resps = Inr p"
    and rest: "for_each_page pages (Suc i) resps (acc @ [p]) = Inr posts"
    by (auto split: sum.splits)
  from Cons.IH [OF rest] obtain ps where ps: "posts = (acc @ [p]) @ ps"
    "length ps = length pages"
    "\<forall>k<length pages. map_entry (pages ! k) (Suc i + k) resps = Inr (ps ! k)"
    by blast
  have "\<forall>k<length (page # pages). map_entry ((page # pages) ! k) (i + k) resps = Inr ((p # ps) ! k)"
  proof (intro allI impI)
    fix k assume "k < length (page # pages)"
    then show "map_entry ((page # pages) ! k) (i + k) resps = Inr ((p # ps) ! k)"
      using p ps(3) by (cases k) simp_all
  qed
  with ps show ?case by (intro exI [of _ "p # ps"]) simp
qed

lemma for_each_page_total:
  "(\<forall>k<length pages. \<exists>p. map_entry (pages ! k) (i + k) resps = Inr p) \<Longrightarrow>
   \<exists>posts. for_each_page pages i resps acc = Inr posts"
proof (induction pages arbitrary: i acc)
  case Nil
  then show ?case by simp
next
  case (Cons page pages)
  from Cons.prems [rule_format, of 0] obtain p where p: "map_entry page i resps = Inr p" by auto
  have "\<forall>k<length pages. \<exists>q. map_entry (pages ! k) (Suc i + k) resps = Inr q"
  proof (intro allI impI)
    fix k assume "k < length pages"
    then show "\<exists>q. map_entry (pages ! k) (Suc i + k) resps = Inr q"
      using Cons.prems [rule_format, of "Suc k"] by simp
  qed
  from Cons.IH [OF this, of "acc @ [p]"] show ?case using p by simp
qed

lemma map_posts_Inr:
  assumes "map_posts results resps = Inr posts"
  shows "length posts = length results"
    and "\<And>k. k < length results \<Longrightarrow> map_entry (results ! k) k resps = Inr (posts ! k)"
  using for_each_page_Inr [of results 0 resps "[]" posts] assms
  by (auto simp: map_posts_def)

lemma promise_all_length:
  "promise_all list_children ids = Inr blockResponses \<Longrightarrow> length blockResponses = length ids"
  by (induction ids arbitrary: blockResponses) (auto split: sum.splits)

lemma getStaticProps_Inr:
  assumes "getStaticProps (Inr results) list_children = Inr posts"
  shows "\<exists>blockResponses. promise_all list_children (map page_id results) = Inr blockResponses \<and>
           length blockResponses = length results \<and>
           map_posts results blockResponses = Inr posts"
proof -
  from assms obtain blockResponses
    where fetched: "promise_all list_children (map page_id results) = Inr blockResponses"
      and mapped: "map_posts results blockResponses = Inr posts"
    by (auto simp: getStaticProps_def split: sum.splits)
  from fetched have "length blockResponses = length results"
    using promise_all_length by fastforce
  with fetched mapped show ?thesis by blast
qed

subsection \<open>The loop over the posts\<close>

lemma for_each_post_acc:
  "for_each_post posts acc =
     acc @ map (\<lambda>p. \<lparr>params = \<lparr>param_slug = the (slug p)\<rparr>\<rparr>) (filter (\<lambda>p. truthy (slug p)) posts)"
  by (induction posts arbitrary: acc) simp_all

lemma truthy_iff: "truthy s \<longleftrightarrow> s \<noteq> None \<and> s \<noteq> Some []"
  by (cases s) simp_all

lemma find_hd_filter: "filter P xs \<noteq> [] \<Longrightarrow> find P xs = Some (hd (filter P xs))"
  by (induction xs) auto

section \<open>The claims\<close>

text \<open>
  C1. For every raw entry without the \<open>properties\<close> key, the mapper produces a post
  whose \<open>title\<close>, \<open>slug\<close>, \<open>createdTs\<close> and \<open>lastEditedTs\<close> are \<open>null\<close>, whose
  \<open>contents\<close> is empty and whose \<open>id\<close> is the entry's id: for the entry alone, and
  at the entry's position in the posts mapped from a whole query result.
\<close>

theorem partial_entry_keeps_id_only:
  "map_entry (PartialPage pid) index blockResponses =
     Inr \<lparr>post_id = pid, title = None, slug = None, createdTs = None,
          lastEditedTs = None, contents = []\<rparr> \<and>
   (map_posts results blockResponses = Inr posts \<longrightarrow> k < length results \<longrightarrow>
    results ! k = PartialPage pid \<longrightarrow>
    posts ! k = \<lparr>post_id = pid, title = None, slug = None, createdTs = None,
                 lastEditedTs = None, contents = []\<rparr>)"
proof (intro conjI impI)
  show "map_entry (PartialPage pid) index blockResponses =
     Inr \<lparr>post_id = pid, title = None, slug = None, createdTs = None,
          lastEditedTs = None, contents = []\<rparr>"
    by simp
next
  assume "map_posts results blockResponses = Inr posts" and "k < length results"
    and "results ! k = PartialPage pid"
  then show "posts ! k = \<lparr>post_id = pid, title = None, slug = None, createdTs = None,
                 lastEditedTs = None, contents = []\<rparr>"
    using map_posts_Inr(2) [of results blockResponses posts k] by simp
qed

theorem partial_entry_keeps_id_only_witness:
  "map_posts [PartialPage ''page-1''] [[]] =
     Inr [\<lparr>post_id = ''page-1'', title = None, slug = None, createdTs = None,
           lastEditedTs = None, contents = []\<rparr>]"
  using partial_entry_keeps_id_only [of "''page-1''" 0 "[[]]" "[PartialPage ''page-1'']" _ 0]
  by (simp add: map_posts_def)

text \<open>
  C2 as stated fails on a post whose slug is the empty string: the slug is not
  \<open>null\<close>, and \<open>if (slug)\<close> gives it no path. The post is the one the mapper makes of
  an entry whose \<open>Slug\<close> starts with a run of empty plain text.
\<close>

theorem static_paths_empty_slug_counterexample:
  "getStaticPaths (Inr [\<lparr>post_id = ''page-1'', title = Some ''Hello'', slug = Some [],
       createdTs = Some ''2023-04-01T00:00:00.000Z'',
       lastEditedTs = Some ''2023-04-02T00:00:00.000Z'', contents = []\<rparr>])
     = Inr \<lparr>paths = [], fallback = ''blocking''\<rparr> \<and>
   slug \<lparr>post_id = ''page-1'', title = Some ''Hello'', slug = Some [],
       createdTs = Some ''2023-04-01T00:00:00.000Z'',
       lastEditedTs = Some ''2023-04-02T00:00:00.000Z'', contents = []\<rparr> \<noteq> None \<and>
   map_posts
     [FullPage ''page-1'' ''2023-04-01T00:00:00.000Z'' ''2023-04-02T00:00:00.000Z''
        [''Name'' \<mapsto> TitleProperty [\<lparr>plain_text = ''Hello''\<rparr>],
         ''Slug'' \<mapsto> RichTextProperty [\<lparr>plain_text = []\<rparr>]]]
     [[]]
     = Inr [\<lparr>post_id = ''page-1'', title = Some ''Hello'', slug = Some [],
       createdTs = Some ''2023-04-01T00:00:00.000Z'',
       lastEditedTs = Some ''2023-04-02T00:00:00.000Z'', contents = []\<rparr>]"
  by (simp add: getStaticPaths_def map_posts_def read_title_def read_slug_def
      block_response_def map_blocks_def)

text \<open>
  C2, amended. Static-path enumeration produces one path per post whose slug is neither
  \<open>null\<close> nor the empty string, carrying that slug, in the order of the posts; a post
  whose slug is \<open>null\<close> or empty produces no path, and the number of paths is the
  number of posts with a non-null, non-empty slug.
\<close>

theorem static_paths_one_per_truthy_slug:
  "\<exists>r. getStaticPaths (Inr posts) = Inr r \<and>
        paths r = map (\<lambda>p. \<lparr>params = \<lparr>param_slug = the (slug p)\<rparr>\<rparr>)
                    (filter (\<lambda>p. slug p \<noteq> None \<and> slug p \<noteq> Some []) posts) \<and>
        length (paths r) = length (filter (\<lambda>p. slug p \<noteq> None \<and> slug p \<noteq> Some []) posts) \<and>
        fallback r = ''blocking''"
  by (simp add: getStaticPaths_def for_each_post_acc truthy_iff)

theorem static_paths_one_per_truthy_slug_witness:
  "getStaticPaths (Inr
     [\<lparr>post_id = ''page-1'', title = None, slug = Some ''first'', createdTs = None,
        lastEditedTs = None, contents = []\<rparr>,
      \<lparr>post_id = ''page-2'', title = None, slug = None, createdTs = None,
        lastEditedTs = None, contents = []\<rparr>,
      \<lparr>post_id = ''page-3'', title = None, slug = Some [], createdTs = None,
        lastEditedTs = None, contents = []\<rparr>,
      \<lparr>post_id = ''page-4'', title = None, slug = Some ''last'', createdTs = None,
        lastEditedTs = None, contents = []\<rparr>])
   = Inr \<lparr>paths = [\<lparr>params = \<lparr>param_slug = ''first''\<rparr>\<rparr>,
                   \<lparr>params = \<lparr>param_slug = ''last''\<rparr>\<rparr>],
          fallback = ''blocking''\<rparr>"
  using static_paths_one_per_truthy_slug [of
     "[\<lparr>post_id = ''page-1'', title = None, slug = Some ''first'', createdTs = None,
        lastEditedTs = None, contents = []\<rparr>,
      \<lparr>post_id = ''page-2'', title = None, slug = None, createdTs = None,
        lastEditedTs = None, contents = []\<rparr>,
      \<lparr>post_id = ''page-3'', title = None, slug = Some [], createdTs = None,
        lastEditedTs = None, contents = []\<rparr>,
      \<lparr>post_id = ''page-4'', title = None, slug = Some ''last'', createdTs = None,
        lastEditedTs = None, contents = []\<rparr>]"]
  by (simp add: getStaticPaths_def)

text \<open>
  C3. The detail route's \<open>getStaticProps\<close> returns the redirect to \<open>/404\<close> when the
  route parameters are absent and when the fetch by the given slug returns no post;
  when the fetch returns posts, the result carries the first of them, with the fetched
  contents attached and no redirect. A rejected fetch rejects the call.
\<close>

theorem detail_route_redirects_or_carries_post:
  "getStaticProps_detail getPosts' getPostContents None = Inr notFoundProps \<and>
   (getPosts' (Some (param_slug ps)) = Inr [] \<longrightarrow>
      getStaticProps_detail getPosts' getPostContents (Some ps) = Inr notFoundProps) \<and>
   (getPosts' (Some (param_slug ps)) = Inr (p # rest) \<longrightarrow> getPostContents p = Inr cs \<longrightarrow>
      getStaticProps_detail getPosts' getPostContents (Some ps) =
        Inr \<lparr>props = Some (p\<lparr>contents := cs\<rparr>), redirect = None\<rparr>) \<and>
   (getPosts' (Some (param_slug ps)) = Inl e \<longrightarrow>
      getStaticProps_detail getPosts' getPostContents (Some ps) = Inl e) \<and>
   (getPosts' (Some (param_slug ps)) = Inr (p # rest) \<longrightarrow> getPostContents p = Inl e \<longrightarrow>
      getStaticProps_detail getPosts' getPostContents (Some ps) = Inl e) \<and>
   props notFoundProps = None \<and> redirect notFoundProps = Some ''/404''"
  by (simp add: getStaticProps_detail_def notFoundProps_def)

theorem detail_route_redirects_or_carries_post_witness:
  "getStaticProps_detail
     (\<lambda>s. if s = Some ''my-slug''
          then Inr [\<lparr>post_id = ''page-1'', title = Some ''Hello'', slug = Some ''my-slug'',
                     createdTs = Some ''2023-04-01T00:00:00.000Z'',
                     lastEditedTs = Some ''2023-04-02T00:00:00.000Z'', contents = []\<rparr>]
          else Inr [])
     (\<lambda>p. Inr [TextContent T_paragraph (Some ''body'')])
     (Some \<lparr>param_slug = ''my-slug''\<rparr>)
   = Inr \<lparr>props = Some \<lparr>post_id = ''page-1'', title = Some ''Hello'', slug = Some ''my-slug'',
                     createdTs = Some ''2023-04-01T00:00:00.000Z'',
                     lastEditedTs = Some ''2023-04-02T00:00:00.000Z'',
                     contents = [TextContent T_paragraph (Some ''body'')]\<rparr>,
          redirect = None\<rparr> \<and>
   getStaticProps_detail
     (\<lambda>s. if s = Some ''my-slug''
          then Inr [\<lparr>post_id = ''page-1'', title = Some ''Hello'', slug = Some ''my-slug'',
                     createdTs = Some ''2023-04-01T00:00:00.000Z'',
                     lastEditedTs = Some ''2023-04-02T00:00:00.000Z'', contents = []\<rparr>]
          else Inr [])
     (\<lambda>p. Inr [TextContent T_paragraph (Some ''body'')])
     (Some \<lparr>param_slug = ''gone''\<rparr>)
   = Inr \<lparr>props = None, redirect = Some ''/404''\<rparr>"
  using detail_route_redirects_or_carries_post [of
     "\<lambda>s. if s = Some ''my-slug''
          then Inr [\<lparr>post_id = ''page-1'', title = Some ''Hello'', slug = Some ''my-slug'',
                     createdTs = Some ''2023-04-01T00:00:00.000Z'',
                     lastEditedTs = Some ''2023-04-02T00:00:00.000Z'', contents = []\<rparr>]
          else Inr []"
     "\<lambda>p. Inr [TextContent T_paragraph (Some ''body'')]"
     "\<lparr>param_slug = ''my-slug''\<rparr>"
     "\<lparr>post_id = ''page-1'', title = Some ''Hello'', slug = Some ''my-slug'',
        createdTs = Some ''2023-04-01T00:00:00.000Z'',
        lastEditedTs = Some ''2023-04-02T00:00:00.000Z'', contents = []\<rparr>"
     "[]" "[TextContent T_paragraph (Some ''body'')]"]
    detail_route_redirects_or_carries_post [of
     "\<lambda>s. if s = Some ''my-slug''
          then Inr [\<lparr>post_id = ''page-1'', title = Some ''Hello'', slug = Some ''my-slug'',
                     createdTs = Some ''2023-04-01T00:00:00.000Z'',
                     lastEditedTs = Some ''2023-04-02T00:00:00.000Z'', contents = []\<rparr>]
          else Inr []"
     "\<lambda>p. Inr [TextContent T_paragraph (Some ''body'')]"
     "\<lparr>param_slug = ''gone''\<rparr>"]
  by (simp add: notFoundProps_def)

text \<open>
  C4. A block without a \<open>type\<close> key, and a block whose type is none of
  \<open>paragraph\<close>, \<open>quote\<close>, \<open>heading_2\<close>, \<open>heading_3\<close>, \<open>code\<close>, pushes no content:
  the contents of a block list are those of the list without that block.
\<close>

theorem unrecognized_block_is_skipped:
  assumes "block_type b = None \<or> (\<exists>t. block_type b = Some t \<and> t \<notin> set recognized_types)"
  shows "map_block b = None \<and>
         map_blocks (xs @ b # ys) = map_blocks xs @ map_blocks ys \<and>
         length (map_blocks (xs @ b # ys)) = length (map_blocks (xs @ ys))"
proof -
  have skipped: "map_block b = None" using assms by (rule map_block_unrecognized)
  then have "map_blocks (xs @ b # ys) = map_blocks xs @ map_blocks ys"
    by (simp add: map_blocks_append map_blocks_Cons)
  with skipped show ?thesis by (simp add: map_blocks_append)
qed

theorem unrecognized_block_is_skipped_witness:
  "block_type (FullBlock ''block-2'' False (OtherBlock ''bulleted_list_item''))
     = Some ''bulleted_list_item'' \<and>
   ''bulleted_list_item'' \<notin> set recognized_types \<and>
   map_block (FullBlock ''block-2'' False (OtherBlock ''bulleted_list_item'')) = None \<and>
   map_blocks ([FullBlock ''block-1'' False (Paragraph [\<lparr>plain_text = ''first''\<rparr>])] @
               FullBlock ''block-2'' False (OtherBlock ''bulleted_list_item'') #
               [FullBlock ''block-3'' False (Quote [\<lparr>plain_text = ''last''\<rparr>])])
     = [TextContent T_paragraph (Some ''first''), TextContent T_quote (Some ''last'')]"
proof -
  have tag: "block_type (FullBlock ''block-2'' False (OtherBlock ''bulleted_list_item''))
     = Some ''bulleted_list_item''" by simp
  have unknown: "''bulleted_list_item'' \<notin> set recognized_types"
    by (simp add: recognized_types_def)
  from tag unknown
  have "block_type (FullBlock ''block-2'' False (OtherBlock ''bulleted_list_item'')) = None \<or>
    (\<exists>t. block_type (FullBlock ''block-2'' False (OtherBlock ''bulleted_list_item'')) = Some t \<and>
         t \<notin> set recognized_types)" by blast
  from unrecognized_block_is_skipped [OF this,
      of "[FullBlock ''block-1'' False (Paragraph [\<lparr>plain_text = ''first''\<rparr>])]"
         "[FullBlock ''block-3'' False (Quote [\<lparr>plain_text = ''last''\<rparr>])]"]
  show ?thesis using tag unknown by (simp add: map_blocks_Cons map_blocks_Nil)
qed

text \<open>
  C5. The contents of a mapped post are the contents of the recognized blocks of the
  remote block list, in the order of that list: when block \<open>A\<close> stands before block
  \<open>B\<close> and both are mapped, the content of \<open>A\<close> stands before the content of \<open>B\<close>,
  with the contents of the blocks before, between and after them around. The flag for
  nested child blocks changes nothing.
\<close>

theorem contents_keep_block_order:
  "map_blocks blocks = map (the \<circ> map_block) (filter (\<lambda>b. map_block b \<noteq> None) blocks) \<and>
   (map_block A = Some a \<longrightarrow> map_block B = Some b \<longrightarrow>
      map_blocks (xs @ A # ys @ B # zs)
        = map_blocks xs @ a # map_blocks ys @ b # map_blocks zs) \<and>
   map_block (FullBlock bid has_children body) = map_block (FullBlock bid (\<not> has_children) body) \<and>
   (map_entry (FullPage pid created edited properties) index blockResponses = Inr p \<longrightarrow>
      contents p = map_blocks (blockResponses ! index))"
proof (intro conjI impI)
  show "map_blocks blocks = map (the \<circ> map_block) (filter (\<lambda>b. map_block b \<noteq> None) blocks)"
    by (rule map_blocks_filter)
next
  assume "map_block A = Some a" and "map_block B = Some b"
  then show "map_blocks (xs @ A # ys @ B # zs)
        = map_blocks xs @ a # map_blocks ys @ b # map_blocks zs"
    by (simp add: map_blocks_append map_blocks_Cons)
next
  show "map_block (FullBlock bid has_children body) = map_block (FullBlock bid (\<not> has_children) body)"
    by (cases body) simp_all
next
  assume "map_entry (FullPage pid created edited properties) index blockResponses = Inr p"
  then show "contents p = map_blocks (blockResponses ! index)"
    by (auto simp: block_response_def split: sum.splits if_splits)
qed

theorem contents_keep_block_order_witness:
  "map_blocks ([] @ FullBlock ''block-1'' True (Heading_2 [\<lparr>plain_text = ''Intro''\<rparr>]) #
               [PartialBlock ''block-2'', FullBlock ''block-3'' False (OtherBlock ''divider'')] @
               FullBlock ''block-4'' False (Paragraph [\<lparr>plain_text = ''Body''\<rparr>]) # [])
     = [TextContent T_heading_2 (Some ''Intro''), TextContent T_paragraph (Some ''Body'')]"
  using contents_keep_block_order [of _
      "FullBlock ''block-1'' True (Heading_2 [\<lparr>plain_text = ''Intro''\<rparr>])"
      "TextContent T_heading_2 (Some ''Intro'')"
      "FullBlock ''block-4'' False (Paragraph [\<lparr>plain_text = ''Body''\<rparr>])"
      "TextContent T_paragraph (Some ''Body'')"
      "[]" "[PartialBlock ''block-2'', FullBlock ''block-3'' False (OtherBlock ''divider'')]" "[]"]
  by (simp add: map_blocks_Cons map_blocks_Nil)

text \<open>
  C6. For a full page with a \<open>Name\<close> property, the title read at lines 88-91, which
  is the title of the post mapped from the page, is the plain text of the first
  rich-text run when the property's type is \<open>title\<close>, and \<open>null\<close> when the type is not
  \<open>title\<close> or the rich-text array is empty.
\<close>

theorem title_is_first_run_of_Name:
  assumes name: "properties ''Name'' = Some v"
  shows "read_title properties
           = Inr (case v of TitleProperty (r # rs) \<Rightarrow> Some (plain_text r) | _ \<Rightarrow> None) \<and>
         (\<forall>p. map_entry (FullPage pid created edited properties) index blockResponses = Inr p \<longrightarrow>
              title p = (case v of TitleProperty (r # rs) \<Rightarrow> Some (plain_text r) | _ \<Rightarrow> None)) \<and>
         (\<forall>r rs. v = TitleProperty (r # rs) \<longrightarrow> read_title properties = Inr (Some (plain_text r))) \<and>
         (v = TitleProperty [] \<longrightarrow> read_title properties = Inr None) \<and>
         (property_type v \<noteq> ''title'' \<longrightarrow> read_title properties = Inr None)"
proof -
  have read: "read_title properties
      = Inr (case v of TitleProperty (r # rs) \<Rightarrow> Some (plain_text r) | _ \<Rightarrow> None)"
  proof (cases v)
    case (TitleProperty rs)
    with name show ?thesis by (cases rs) (simp_all add: read_title_def)
  next
    case (RichTextProperty rs)
    with name show ?thesis by (simp add: read_title_def)
  next
    case (OtherProperty tag)
    with name show ?thesis by (simp add: read_title_def)
  qed
  have mapped: "title p = (case v of TitleProperty (r # rs) \<Rightarrow> Some (plain_text r) | _ \<Rightarrow> None)"
    if "map_entry (FullPage pid created edited properties) index blockResponses = Inr p" for p
    using that read by (auto split: sum.splits)
  have other: "read_title properties = Inr None" if "property_type v \<noteq> ''title''"
    using that read by (cases v) simp_all
  from read mapped other show ?thesis by simp
qed

theorem title_is_first_run_of_Name_witness:
  "map_entry (FullPage ''page-1'' ''2023-04-01T00:00:00.000Z'' ''2023-04-02T00:00:00.000Z''
       [''Name'' \<mapsto> TitleProperty [\<lparr>plain_text = ''Hello''\<rparr>, \<lparr>plain_text = ''World''\<rparr>],
        ''Slug'' \<mapsto> RichTextProperty [\<lparr>plain_text = ''hello-world''\<rparr>]]) 0 [[]]
     = Inr \<lparr>post_id = ''page-1'', title = Some ''Hello'', slug = Some ''hello-world'',
            createdTs = Some ''2023-04-01T00:00:00.000Z'',
            lastEditedTs = Some ''2023-04-02T00:00:00.000Z'', contents = []\<rparr> \<and>
   title \<lparr>post_id = ''page-1'', title = Some ''Hello'', slug = Some ''hello-world'',
            createdTs = Some ''2023-04-01T00:00:00.000Z'',
            lastEditedTs = Some ''2023-04-02T00:00:00.000Z'', contents = []\<rparr> = Some ''Hello''"
proof -
  have name: "[''Name'' \<mapsto> TitleProperty [\<lparr>plain_text = ''Hello''\<rparr>, \<lparr>plain_text = ''World''\<rparr>],
        ''Slug'' \<mapsto> RichTextProperty [\<lparr>plain_text = ''hello-world''\<rparr>]] ''Name''
      = Some (TitleProperty [\<lparr>plain_text = ''Hello''\<rparr>, \<lparr>plain_text = ''World''\<rparr>])"
    by simp
  have mapped: "map_entry (FullPage ''page-1'' ''2023-04-01T00:00:00.000Z'' ''2023-04-02T00:00:00.000Z''
       [''Name'' \<mapsto> TitleProperty [\<lparr>plain_text = ''Hello''\<rparr>, \<lparr>plain_text = ''World''\<rparr>],
        ''Slug'' \<mapsto> RichTextProperty [\<lparr>plain_text = ''hello-world''\<rparr>]]) 0 [[]]
     = Inr \<lparr>post_id = ''page-1'', title = Some ''Hello'', slug = Some ''hello-world'',
            createdTs = Some ''2023-04-01T00:00:00.000Z'',
            lastEditedTs = Some ''2023-04-02T00:00:00.000Z'', contents = []\<rparr>"
    by (simp add: read_title_def read_slug_def block_response_def map_blocks_def)
  from title_is_first_run_of_Name [of
      "[''Name'' \<mapsto> TitleProperty [\<lparr>plain_text = ''Hello''\<rparr>, \<lparr>plain_text = ''World''\<rparr>],
        ''Slug'' \<mapsto> RichTextProperty [\<lparr>plain_text = ''hello-world''\<rparr>]]"
      "TitleProperty [\<lparr>plain_text = ''Hello''\<rparr>, \<lparr>plain_text = ''World''\<rparr>]"
      "''page-1''" "''2023-04-01T00:00:00.000Z''" "''2023-04-02T00:00:00.000Z''" 0 "[[]]",
      OF name] mapped
  show ?thesis by simp
qed

text \<open>
  C7. A block of type \<open>code\<close> is mapped to a content of the code variant, whose text
  is the plain text of the first rich-text run (\<open>null\<close> on an empty array) and whose
  language is the block's language; language \<open>python\<close> and text \<open>x=1\<close> give
  \<open>{type: "code", text: "x=1", language: "python"}\<close>.
\<close>

theorem code_block_maps_to_code_content:
  "map_block (FullBlock bid has_children (Code rs lang))
     = Some (CodeContent (first_plain_text rs) (Some lang)) \<and>
   map_block (FullBlock bid has_children (Code (r # rs) lang))
     = Some (CodeContent (Some (plain_text r)) (Some lang)) \<and>
   map_block (FullBlock bid has_children (Code [] lang)) = Some (CodeContent None (Some lang)) \<and>
   map_blocks [FullBlock bid has_children (Code [\<lparr>plain_text = ''x=1''\<rparr>] ''python'')]
     = [CodeContent (Some ''x=1'') (Some ''python'')] \<and>
   content_type (CodeContent (Some ''x=1'') (Some ''python'')) = ''code''"
  by (simp add: map_blocks_Cons map_blocks_Nil)

text \<open>
  C8. The selection \<open>posts.shift()\<close> returns \<open>undefined\<close> exactly when the fetch by
  slug returned no post, which is when no published entry matches the slug; the post
  it returns otherwise is the first of the fetch result, mapped from the first
  published entry whose raw \<open>Slug\<close> rich-text first run equals the requested slug,
  and its slug is the requested one.
\<close>

theorem first_fetched_post_matches_slug:
  assumes fetched: "getPosts published list_children (Some s) = Inr posts"
  shows "(fst (shift posts) = None \<longleftrightarrow> posts = []) \<and>
         (posts = [] \<longleftrightarrow> filter (\<lambda>page. raw_slug page = Some s) published = []) \<and>
         (\<forall>p. fst (shift posts) = Some p \<longrightarrow>
              p = hd posts \<and> slug p = Some s \<and>
              (\<exists>page. find (\<lambda>page. raw_slug page = Some s) published = Some page \<and>
                      post_id p = page_id page))"
proof -
  let ?pages = "filter (\<lambda>page. raw_slug page = Some s) published"
  from fetched have "getStaticProps (Inr ?pages) list_children = Inr posts"
    by (simp add: getPosts_def)
  then obtain resps where mapped: "map_posts ?pages resps = Inr posts"
    using getStaticProps_Inr by blast
  have len: "length posts = length ?pages" using mapped by (rule map_posts_Inr(1))
  have first: "fst (shift posts) = None \<longleftrightarrow> posts = []" by (cases posts) simp_all
  have empty: "posts = [] \<longleftrightarrow> ?pages = []" using len by auto
  have sel: "p = hd posts \<and> slug p = Some s \<and>
      (\<exists>page. find (\<lambda>page. raw_slug page = Some s) published = Some page \<and>
              post_id p = page_id page)" if p: "fst (shift posts) = Some p" for p
  proof -
    from p have ne: "posts \<noteq> []" and hd: "p = hd posts" by (cases posts; simp)+
    with len have pages: "?pages \<noteq> []" by auto
    then have "0 < length ?pages" by simp
    from map_posts_Inr(2) [OF mapped this] ne pages hd
    have entry: "map_entry (hd ?pages) 0 resps = Inr p" by (simp add: hd_conv_nth)
    from pages have "hd ?pages \<in> set ?pages" by (rule hd_in_set)
    then have "raw_slug (hd ?pages) = Some s" by simp
    then have "slug p = Some s" using entry by (rule map_entry_slug)
    moreover have "find (\<lambda>page. raw_slug page = Some s) published = Some (hd ?pages)"
      using pages by (rule find_hd_filter)
    moreover have "post_id p = page_id (hd ?pages)" using entry by (rule map_entry_post_id)
    ultimately show ?thesis using hd by blast
  qed
  from first empty sel show ?thesis by blast
qed

theorem first_fetched_post_matches_slug_witness:
  "getPosts
     [FullPage ''page-3'' ''2023-04-03'' ''2023-04-03''
        [''Name'' \<mapsto> TitleProperty [\<lparr>plain_text = ''Other''\<rparr>],
         ''Slug'' \<mapsto> RichTextProperty [\<lparr>plain_text = ''other''\<rparr>]],
      FullPage ''page-2'' ''2023-04-02'' ''2023-04-02''
        [''Name'' \<mapsto> TitleProperty [\<lparr>plain_text = ''Mine''\<rparr>],
         ''Slug'' \<mapsto> RichTextProperty [\<lparr>plain_text = ''my-slug''\<rparr>]],
      PartialPage ''page-1'']
     (\<lambda>i. Inr []) (Some ''my-slug'')
   = Inr [\<lparr>post_id = ''page-2'', title = Some ''Mine'', slug = Some ''my-slug'',
            createdTs = Some ''2023-04-02'', lastEditedTs = Some ''2023-04-02'',
            contents = []\<rparr>] \<and>
   fst (shift [\<lparr>post_id = ''page-2'', title = Some ''Mine'', slug = Some ''my-slug'',
            createdTs = Some ''2023-04-02'', lastEditedTs = Some ''2023-04-02'',
            contents = []\<rparr>])
   = Some \<lparr>post_id = ''page-2'', title = Some ''Mine'', slug = Some ''my-slug'',
            createdTs = Some ''2023-04-02'', lastEditedTs = Some ''2023-04-02'',
            contents = []\<rparr>"
proof -
  have fetched: "getPosts
     [FullPage ''page-3'' ''2023-04-03'' ''2023-04-03''
        [''Name'' \<mapsto> TitleProperty [\<lparr>plain_text = ''Other''\<rparr>],
         ''Slug'' \<mapsto> RichTextProperty [\<lparr>plain_text = ''other''\<rparr>]],
      FullPage ''page-2'' ''2023-04-02'' ''2023-04-02''
        [''Name'' \<mapsto> TitleProperty [\<lparr>plain_text = ''Mine''\<rparr>],
         ''Slug'' \<mapsto> RichTextProperty [\<lparr>plain_text = ''my-slug''\<rparr>]],
      PartialPage ''page-1'']
     (\<lambda>i. Inr []) (Some ''my-slug'')
   = Inr [\<lparr>post_id = ''page-2'', title = Some ''Mine'', slug = Some ''my-slug'',
            createdTs = Some ''2023-04-02'', lastEditedTs = Some ''2023-04-02'',
            contents = []\<rparr>]"
    by (simp add: getPosts_def getStaticProps_def map_posts_def read_title_def read_slug_def
        block_response_def map_blocks_def)
  from first_fetched_post_matches_slug [OF fetched] fetched show ?thesis by simp
qed

text \<open>
  C9. A block of a recognized type whose rich-text array is empty is still mapped to a
  content, of the block's type and with text \<open>null\<close>; the contents of a block list
  with such a block are one longer than without it.
\<close>

theorem empty_rich_text_still_emits_content:
  assumes "block_rich_text b = Some []"
  shows "\<exists>c. map_block b = Some c \<and> content_text c = None \<and>
             block_type b = Some (content_type c) \<and>
             map_blocks (xs @ b # ys) = map_blocks xs @ c # map_blocks ys \<and>
             length (map_blocks (xs @ b # ys)) = Suc (length (map_blocks (xs @ ys)))"
proof (cases b)
  case (PartialBlock bid)
  with assms show ?thesis by simp
next
  case (FullBlock bid hc body)
  with assms show ?thesis
    by (cases body) (simp_all add: map_blocks_append map_blocks_Cons)
qed

theorem empty_rich_text_still_emits_content_witness:
  "block_rich_text (FullBlock ''block-2'' False (Heading_3 [])) = Some [] \<and>
   map_blocks ([FullBlock ''block-1'' False (Paragraph [\<lparr>plain_text = ''first''\<rparr>])] @
               FullBlock ''block-2'' False (Heading_3 []) # [])
     = [TextContent T_paragraph (Some ''first''), TextContent T_heading_3 None]"
proof -
  have empty: "block_rich_text (FullBlock ''block-2'' False (Heading_3 [])) = Some []" by simp
  from empty_rich_text_still_emits_content [OF empty,
      of "[FullBlock ''block-1'' False (Paragraph [\<lparr>plain_text = ''first''\<rparr>])]" "[]"]
  show ?thesis by (auto simp: map_blocks_Cons map_blocks_Nil)
qed

text \<open>
  C10 as stated fails on a query result with a full entry whose properties have no
  \<open>Slug\<close> key: line 93 throws, and no post is returned.
\<close>

theorem missing_property_counterexample:
  "map_posts
     [FullPage ''page-1'' ''2023-04-01T00:00:00.000Z'' ''2023-04-02T00:00:00.000Z''
        [''Name'' \<mapsto> TitleProperty [\<lparr>plain_text = ''Hello''\<rparr>]]]
     [[]]
   = Inl TypeError"
  by (simp add: map_posts_def read_title_def read_slug_def)

text \<open>
  C10, amended. For every query result whose full entries all carry the \<open>Name\<close> and
  the \<open>Slug\<close> property, with one fetched block list per entry, the mapper returns one
  post per raw entry, partial entries included, in the order of the query result: the
  post at each position is the one mapped from the entry at that position, and the
  number of posts is the number of entries.
\<close>

theorem one_post_per_entry_in_order:
  assumes carries: "\<forall>page\<in>set results. carries_name_and_slug page"
    and lengths: "length blockResponses = length results"
  shows "\<exists>posts. map_posts results blockResponses = Inr posts \<and>
           length posts = length results \<and>
           map post_id posts = map page_id results \<and>
           (\<forall>k<length results. map_entry (results ! k) k blockResponses = Inr (posts ! k))"
proof -
  have "\<forall>k<length results. \<exists>p. map_entry (results ! k) (0 + k) blockResponses = Inr p"
  proof (intro allI impI)
    fix k assume k: "k < length results"
    then have c: "carries_name_and_slug (results ! k)" using carries by simp
    show "\<exists>p. map_entry (results ! k) (0 + k) blockResponses = Inr p"
    proof (cases "results ! k")
      case (PartialPage pid)
      then show ?thesis by simp
    next
      case (FullPage pid created edited properties)
      with c k lengths
      have "properties ''Name'' \<noteq> None \<and> properties ''Slug'' \<noteq> None \<and> k < length blockResponses"
        by simp
      then have "\<exists>p. map_entry (FullPage pid created edited properties) k blockResponses = Inr p"
        using map_entry_returns_iff [of pid created edited properties k blockResponses] by blast
      with FullPage show ?thesis by simp
    qed
  qed
  then obtain posts where posts: "map_posts results blockResponses = Inr posts"
    unfolding map_posts_def using for_each_page_total by blast
  note len = map_posts_Inr(1) [OF posts] and nth = map_posts_Inr(2) [OF posts]
  have "map post_id posts = map page_id results"
  proof (rule nth_equalityI)
    show "length (map post_id posts) = length (map page_id results)" using len by simp
  next
    fix k assume "k < length (map post_id posts)"
    then have k: "k < length results" using len by simp
    then show "map post_id posts ! k = map page_id results ! k"
      using map_entry_post_id [OF nth [OF k]] len by simp
  qed
  with posts len nth show ?thesis by blast
qed

theorem one_post_per_entry_in_order_witness:
  "map_posts
     [PartialPage ''page-2'',
      FullPage ''page-1'' ''2023-04-01'' ''2023-04-02''
        [''Name'' \<mapsto> TitleProperty [\<lparr>plain_text = ''Hello''\<rparr>],
         ''Slug'' \<mapsto> OtherProperty ''number'']]
     [[], [FullBlock ''block-1'' False (Paragraph [\<lparr>plain_text = ''Body''\<rparr>])]]
   = Inr [\<lparr>post_id = ''page-2'', title = None, slug = None, createdTs = None,
            lastEditedTs = None, contents = []\<rparr>,
          \<lparr>post_id = ''page-1'', title = Some ''Hello'', slug = None,
            createdTs = Some ''2023-04-01'', lastEditedTs = Some ''2023-04-02'',
            contents = [TextContent T_paragraph (Some ''Body'')]\<rparr>]"
proof -
  have carries: "\<forall>page\<in>set [PartialPage ''page-2'',
      FullPage ''page-1'' ''2023-04-01'' ''2023-04-02''
        [''Name'' \<mapsto> TitleProperty [\<lparr>plain_text = ''Hello''\<rparr>],
         ''Slug'' \<mapsto> OtherProperty ''number'']]. carries_name_and_slug page"
    by simp
  have lengths: "length [[], [FullBlock ''block-1'' False (Paragraph [\<lparr>plain_text = ''Body''\<rparr>])]]
     = length [PartialPage ''page-2'',
      FullPage ''page-1'' ''2023-04-01'' ''2023-04-02''
        [''Name'' \<mapsto> TitleProperty [\<lparr>plain_text = ''Hello''\<rparr>],
         ''Slug'' \<mapsto> OtherProperty ''number'']]"
    by simp
  from one_post_per_entry_in_order [OF carries lengths] show ?thesis
    by (simp add: map_posts_def read_title_def read_slug_def block_response_def
        map_blocks_def)
qed

end
